theory Spec2Isabelle
  imports Complex_Main "HOL-Library.AList" "HOL-Library.Multiset"
begin

section \<open>Python values and exceptions\<close>

text \<open>
  The exceptions the modelled functions can raise. A raise is the \<open>Inl\<close> branch of the
  outcome; the state that comes back with it is the state at the moment of the raise.
  \<^item> \<open>ValueError\<close> and \<open>KeyError\<close> carry the message built by the source, a Python
    string (a list of code points);
  \<^item> \<open>AttributeError\<close> carries the type name and the attribute that was looked up
    (\<^verbatim>\<open>'NoneType' object has no attribute 'path'\<close>);
  \<^item> \<open>UnmappedInstanceError\<close> is what the ORM session's \<^verbatim>\<open>delete\<close> raises when it is
    handed \<^verbatim>\<open>None\<close> instead of a mapped instance;
  \<^item> \<open>IntegrityError\<close> is a violated database constraint (a \<^verbatim>\<open>NOT NULL\<close> column set to null);
  \<^item> \<open>OSError\<close> is a failed filesystem inspection, with the reason the filesystem gave.
\<close>

datatype os_error = FileNotFoundError | PermissionError | IsADirectoryError

datatype py_error =
    ValueError "nat list"
  | KeyError "nat list"
  | AttributeError string string
  | UnmappedInstanceError
  | IntegrityError
  | OSError os_error

section \<open>The provider registry (plugins/llm/manager.py)\<close>

subsection \<open>\<^verbatim>\<open>str.lower\<close>\<close>

text \<open>
  A Python \<^verbatim>\<open>str\<close> is a sequence of Unicode code points, and \<^verbatim>\<open>str.lower()\<close> works on
  code points: names are lists of code points here. \<open>ascii\<close> turns a literal of the
  source into one.
\<close>

type_synonym ustring = "nat list"

definition ascii :: "string \<Rightarrow> ustring" where
  "ascii s = map of_char s"

text \<open>
  \<^verbatim>\<open>str.lower()\<close> consults the interpreter's Unicode character database: the full
  lower-case mapping of a code point (one or more code points) and the properties
  Cased and Case_Ignorable. The database is a parameter of the model, except for its
  ASCII part, which is fixed: \<^verbatim>\<open>A\<close>..\<^verbatim>\<open>Z\<close> (65..90) map to \<^verbatim>\<open>a\<close>..\<^verbatim>\<open>z\<close> (97..122) and
  every other ASCII code point to itself.
\<close>

record unicode_db =
  to_lower_full :: "nat \<Rightarrow> nat list"
  is_cased :: "nat \<Rightarrow> bool"
  is_case_ignorable :: "nat \<Rightarrow> bool"

definition ascii_lower :: "nat \<Rightarrow> nat" where
  "ascii_lower c = (if 65 \<le> c \<and> c \<le> 90 then c + 32 else c)"

definition lowercase_of :: "unicode_db \<Rightarrow> nat \<Rightarrow> nat list" where
  "lowercase_of ucd c = (if c < 128 then [ascii_lower c] else to_lower_full ucd c)"

text \<open>
  The interpreter maps every code point through the database, except the Greek capital
  sigma (931): it becomes the final small sigma (962) when it stands in a final
  position, and the small sigma (963) otherwise. The position is final when, skipping
  case-ignorable code points, a cased code point comes before it, and none comes after
  it. \<open>before\<close> and \<open>after\<close> are the code points of the original string on either side.
\<close>

definition final_sigma :: "unicode_db \<Rightarrow> ustring \<Rightarrow> ustring \<Rightarrow> bool" where
  "final_sigma ucd before after =
     ((case dropWhile (is_case_ignorable ucd) (rev before) of
         [] \<Rightarrow> False | c # _ \<Rightarrow> is_cased ucd c)
      \<and> (case dropWhile (is_case_ignorable ucd) after of
         [] \<Rightarrow> True | c # _ \<Rightarrow> \<not> is_cased ucd c))"

fun lower_chars :: "unicode_db \<Rightarrow> ustring \<Rightarrow> ustring \<Rightarrow> ustring" where
  "lower_chars ucd before [] = []"
| "lower_chars ucd before (c # after) =
     (if c = 931 then [if final_sigma ucd before after then 962 else 963]
      else lowercase_of ucd c)
     @ lower_chars ucd (before @ [c]) after"

definition lower :: "unicode_db \<Rightarrow> ustring \<Rightarrow> ustring" where
  "lower ucd s = lower_chars ucd [] s"

text \<open>
  Two code points are the same letter up to case when they are equal or one is the
  lower-case form of the other. Two names differ only by letter case when they have the
  same length and agree position by position up to case. This is stated on the
  characters, without reference to \<open>lower\<close>. \<open>is_ascii\<close> is \<^verbatim>\<open>str.isascii()\<close>.
\<close>

definition same_letter :: "unicode_db \<Rightarrow> nat \<Rightarrow> nat \<Rightarrow> bool" where
  "same_letter ucd c d = (c = d \<or> lowercase_of ucd c = [d] \<or> lowercase_of ucd d = [c])"

definition equal_up_to_case :: "unicode_db \<Rightarrow> ustring \<Rightarrow> ustring \<Rightarrow> bool" where
  "equal_up_to_case ucd a b = list_all2 (same_letter ucd) a b"

definition is_ascii :: "ustring \<Rightarrow> bool" where
  "is_ascii s = list_all (\<lambda>c. c < 128) s"

subsection \<open>The registry\<close>

text \<open>
  A provider class is known to the manager by its \<^verbatim>\<open>NAME\<close> attribute; the rest of the
  class is the record's extension. \<^verbatim>\<open>_class_registry\<close> is a Python dict, which keeps
  insertion order: an association list with distinct keys, a new key going to the end.
\<close>

record provider_class =
  NAME :: ustring

type_synonym 'a class_registry = "(ustring \<times> 'a provider_class_scheme) list"

definition get_providers :: "'a class_registry \<Rightarrow> (ustring \<times> 'a provider_class_scheme) list" where
  "get_providers reg = reg"

definition get_provider ::
  "unicode_db \<Rightarrow> 'a class_registry \<Rightarrow> ustring \<Rightarrow> py_error + 'a provider_class_scheme" where
  "get_provider ucd reg provider_name =
     (case map_of reg (lower ucd provider_name) of
        None \<Rightarrow> Inl (KeyError (ascii ''No such provider: '' @ lower ucd provider_name))
      | Some provider_class \<Rightarrow> Inr provider_class)"

definition register_provider ::
  "unicode_db \<Rightarrow> 'a class_registry \<Rightarrow> 'a provider_class_scheme
     \<Rightarrow> (py_error + unit) \<times> 'a class_registry" where
  "register_provider ucd reg provider_class =
     (let provider_name = lower ucd (NAME provider_class) in
      if provider_name \<in> fst ` set reg
      then (Inl (ValueError (ascii ''Provider '' @ NAME provider_class
                               @ ascii '' already registered'')), reg)
      else (Inr (), AList.update provider_name provider_class reg))"


text \<open>
  A run of \<open>register_provider\<close> calls, each on the registry the call before it left,
  whatever its outcome.
\<close>

definition register_providers ::
  "unicode_db \<Rightarrow> 'a class_registry \<Rightarrow> 'a provider_class_scheme list \<Rightarrow> 'a class_registry" where
  "register_providers ucd reg classes =
     fold (\<lambda>provider_class r. snd (register_provider ucd r provider_class)) classes reg"

section \<open>The entity graph\<close>

subsection \<open>Workflow and Task (datastores/sql/models/workflow.py)\<close>

text \<open>
  Every model has the integer primary key \<^verbatim>\<open>id\<close> of \<^verbatim>\<open>BaseModel\<close>; the fields are
  prefixed with the model's name because several models have columns of the same name.
  The relationships of a model are not columns: they are derived from the foreign keys
  of the rows that point to it.
\<close>

record Workflow =
  workflow_id :: nat
  workflow_display_name :: string
  workflow_description :: "string option"
  workflow_uuid :: "string option"
  workflow_spec_json :: "string option"
  workflow_user_id :: nat
  workflow_folder_id :: "nat option"

record Task =
  task_id :: nat
  task_display_name :: string
  task_description :: "string option"
  task_uuid :: string
  task_config :: "string option"
  task_status_short :: "string option"
  task_status_detail :: "string option"
  task_status_progress :: "string option"
  task_result :: "string option"
  task_runtime :: "real option"
  task_error_exception :: "string option"
  task_error_traceback :: "string option"
  task_user_id :: nat
  task_workflow_id :: nat

text \<open>
  The cascade options of the relationships, as the declarations give them:
  \<^verbatim>\<open>Workflow.tasks\<close> has \<^verbatim>\<open>cascade="all, delete-orphan"\<close>; \<^verbatim>\<open>Task.input_files\<close> and
  \<^verbatim>\<open>Task.output_files\<close> give no \<^verbatim>\<open>cascade\<close> argument and so have the ORM's default,
  \<^verbatim>\<open>"save-update, merge"\<close>. A relationship cascades a delete to its children when its
  options contain \<^verbatim>\<open>delete\<close>, which \<^verbatim>\<open>all\<close> includes.
\<close>

definition default_cascade :: "string list" where
  "default_cascade = [''save-update'', ''merge'']"

definition Workflow_tasks_cascade :: "string list" where
  "Workflow_tasks_cascade = [''all'', ''delete-orphan'']"

definition Task_input_files_cascade :: "string list" where
  "Task_input_files_cascade = default_cascade"

definition Task_output_files_cascade :: "string list" where
  "Task_output_files_cascade = default_cascade"

definition cascades_delete :: "string list \<Rightarrow> bool" where
  "cascades_delete opts = (''all'' \<in> set opts \<or> ''delete'' \<in> set opts)"

subsection \<open>File, Folder, User, Group, UserApiKey, UserRole\<close>

text \<open>
  Modelled from the spec: the model classes \<^verbatim>\<open>File\<close>, \<^verbatim>\<open>Folder\<close>, \<^verbatim>\<open>User\<close>, \<^verbatim>\<open>Group\<close>,
  \<^verbatim>\<open>UserApiKey\<close> and \<^verbatim>\<open>UserRole\<close> and the schema \<^verbatim>\<open>UserCreate\<close> are not among the
  sources. Their records hold the attributes that the data-access functions of
  crud/file.py and crud/user.py read or write, and the foreign keys that the
  relationships of workflow.py name (\<^verbatim>\<open>File.task_input_id\<close>, \<^verbatim>\<open>File.task_output_id\<close>).

  \<open>file_dict\<close> is the dict handed to \<^verbatim>\<open>create_file_in_db\<close>: a key that is absent, or
  present with the value \<^verbatim>\<open>None\<close>, is \<open>None\<close> (\<^verbatim>\<open>dict.get\<close> does not tell them apart).
  A \<open>File\<close> row is that dict's content with the primary key.
\<close>

record Folder =
  folder_id :: nat
  folder_path :: string

record file_dict =
  file_uuid :: "string option"
  file_extension :: "string option"
  file_folder_id :: "nat option"
  file_data_type :: "string option"
  file_magic_text :: "string option"
  file_magic_mime :: "string option"
  file_filesize :: "nat option"
  file_task_input_id :: "nat option"
  file_task_output_id :: "nat option"

record File = file_dict +
  file_id :: nat

record Group =
  group_id :: nat
  group_name :: string

record UserCreate =
  user_display_name :: string
  user_username :: string
  user_password_hash :: "string option"
  user_password_hash_algorithm :: "string option"
  user_auth_method :: string
  user_email :: "string option"
  user_profile_picture_url :: "string option"
  user_uuid :: string
  user_is_admin :: bool
  user_is_active :: bool
  user_is_robot :: bool

text \<open>
  \<open>user_groups\<close> is the relationship \<^verbatim>\<open>User.groups\<close>: the ids of the Group rows the user is
  associated with, in the order they were appended.
\<close>

record User = UserCreate +
  user_id :: nat
  user_groups :: "nat list"

record UserApiKeyCreate =
  apikey_display_name :: string
  apikey_description :: "string option"
  apikey_token_jti :: string
  apikey_token_exp :: nat
  apikey_user_id :: nat

record UserApiKey = UserApiKeyCreate +
  apikey_id :: nat

record UserRole =
  role_id :: nat
  role_role :: string
  role_user_id :: nat
  role_folder_id :: "nat option"
  role_file_id :: "nat option"

subsection \<open>The database behind a session\<close>

text \<open>
  The committed content of the tables, each in insertion order. Every function below
  commits before it returns or raises before it writes, so a session has no pending
  changes between calls and the database is the whole state.
  \<open>file_workflow_association\<close> is the secondary table of \<^verbatim>\<open>Workflow.files\<close>, as pairs
  (file id, workflow id).
\<close>

record database =
  folders :: "Folder list"
  files :: "File list"
  groups :: "Group list"
  users :: "User list"
  user_api_keys :: "UserApiKey list"
  user_roles :: "UserRole list"
  workflows :: "Workflow list"
  tasks :: "Task list"
  file_workflow_association :: "(nat \<times> nat) list"

text \<open>
  The primitives of the persistence layer that the sources call.
  \<^item> \<open>next_id\<close>: the primary key given to a new row, above every key of the table.
  \<^item> \<open>query_first\<close>: \<^verbatim>\<open>db.query(M).filter(...).first()\<close>, the first matching row or \<^verbatim>\<open>None\<close>.
  \<^item> \<open>Session_get\<close>: \<^verbatim>\<open>db.get(M, id)\<close>, the row with that primary key or \<^verbatim>\<open>None\<close>.
  \<^item> \<open>order_by_desc\<close>: \<^verbatim>\<open>.order_by(M.id.desc())\<close>.
  \<^item> \<open>primary_keys_unique\<close>: the primary-key constraint of a table.
\<close>

definition next_id :: "nat list \<Rightarrow> nat" where
  "next_id ids = Suc (fold max ids 0)"

definition query_first :: "('r \<Rightarrow> bool) \<Rightarrow> 'r list \<Rightarrow> 'r option" where
  "query_first P rows = (case filter P rows of [] \<Rightarrow> None | r # _ \<Rightarrow> Some r)"

definition Session_get :: "('r \<Rightarrow> nat) \<Rightarrow> 'r list \<Rightarrow> nat \<Rightarrow> 'r option" where
  "Session_get pk rows i = query_first (\<lambda>r. pk r = i) rows"

definition order_by_desc :: "('r \<Rightarrow> nat) \<Rightarrow> 'r list \<Rightarrow> 'r list" where
  "order_by_desc key rows = rev (sort_key key rows)"

definition primary_keys_unique :: "('r \<Rightarrow> nat) \<Rightarrow> 'r list \<Rightarrow> bool" where
  "primary_keys_unique pk rows = distinct (map pk rows)"

section \<open>Data access: files (datastores/sql/crud/file.py)\<close>

subsection \<open>The filesystem collaborator\<close>

text \<open>
  \<^verbatim>\<open>magic.from_file(path, mime)\<close> and \<^verbatim>\<open>os.stat(path).st_size\<close> are calls into the
  filesystem: each returns a value or raises. The filesystem is a parameter of the
  model. \<open>fs_call\<close> names one inspection, so that a run can report which inspections it
  made, in order.
\<close>

record filesystem =
  magic_from_file :: "string \<Rightarrow> bool \<Rightarrow> os_error + string"
  os_stat_st_size :: "string \<Rightarrow> os_error + nat"

datatype fs_call = Magic_from_file string bool | Os_stat string

text \<open>
  \<^verbatim>\<open>os.path.join(a, b)\<close> on POSIX: an absolute \<open>b\<close> replaces \<open>a\<close>; an empty \<open>a\<close> or one
  that ends in a slash takes \<open>b\<close> directly; otherwise a slash goes between them.
\<close>

definition os_path_join :: "string \<Rightarrow> string \<Rightarrow> string" where
  "os_path_join a b =
     (if take 1 b = ''/'' then b
      else if a = [] \<or> last a = CHR ''/'' then a @ b
      else a @ ''/'' @ b)"

text \<open>
  \<open>py_str\<close> is the formatting of a value inside an f-string (\<^verbatim>\<open>None\<close> prints as
  \<^verbatim>\<open>None\<close>); \<open>truthy\<close> is the truth value of an optional string (\<^verbatim>\<open>None\<close> and the empty
  string are false).
\<close>

definition py_str :: "string option \<Rightarrow> string" where
  "py_str v = (case v of None \<Rightarrow> ''None'' | Some s \<Rightarrow> s)"

definition truthy :: "string option \<Rightarrow> bool" where
  "truthy v = (case v of None \<Rightarrow> False | Some s \<Rightarrow> s \<noteq> [])"

subsection \<open>The functions\<close>

text \<open>
  Modelled from the spec: \<^verbatim>\<open>get_folder_from_db\<close> (crud/folder.py) is not among the sources;
  it is a point lookup that returns the Folder row or \<^verbatim>\<open>None\<close>. A dict without a
  \<^verbatim>\<open>folder_id\<close> finds no folder.
\<close>

definition get_folder_from_db :: "database \<Rightarrow> nat option \<Rightarrow> Folder option" where
  "get_folder_from_db db fid =
     (case fid of None \<Rightarrow> None | Some i \<Rightarrow> Session_get Folder.folder_id (folders db) i)"

definition get_files_from_db :: "database \<Rightarrow> nat \<Rightarrow> File list" where
  "get_files_from_db db fid =
     order_by_desc file_id (filter (\<lambda>f. file_folder_id f = Some fid) (files db))"

definition get_file_from_db :: "database \<Rightarrow> nat \<Rightarrow> File option" where
  "get_file_from_db db i = Session_get file_id (files db) i"

text \<open>
  Lines 48 to 51 of \<^verbatim>\<open>create_file_in_db\<close>: the file name is the uuid, followed by a dot
  and the extension when the extension is truthy, joined to the folder's path.
\<close>

definition filename :: "file_dict \<Rightarrow> string" where
  "filename file =
     (if truthy (file_extension file)
      then py_str (file_uuid file) @ ''.'' @ py_str (file_extension file)
      else py_str (file_uuid file))"

definition output_file :: "Folder \<Rightarrow> file_dict \<Rightarrow> string" where
  "output_file folder file = os_path_join (folder_path folder) (filename file)"

text \<open>
  \<open>new_File\<close> is \<^verbatim>\<open>File(**file)\<close> followed by \<^verbatim>\<open>db.add\<close>, \<^verbatim>\<open>db.commit\<close> and \<^verbatim>\<open>db.refresh\<close>:
  the row with the dict's content and the primary key the table gives it.
\<close>

definition new_File :: "database \<Rightarrow> file_dict \<Rightarrow> File" where
  "new_File db file =
     \<lparr> file_uuid = file_uuid file, file_extension = file_extension file,
       file_folder_id = file_folder_id file, file_data_type = file_data_type file,
       file_magic_text = file_magic_text file, file_magic_mime = file_magic_mime file,
       file_filesize = file_filesize file, file_task_input_id = file_task_input_id file,
       file_task_output_id = file_task_output_id file,
       file_id = next_id (map file_id (files db)) \<rparr>"

text \<open>
  \<^verbatim>\<open>create_file_in_db\<close> returns its outcome, the database after the call and the
  filesystem inspections it made. \<^verbatim>\<open>folder.path\<close> on a missing folder raises the
  \<open>AttributeError\<close> of \<^verbatim>\<open>None\<close>; each inspection that fails raises in its turn; the row is
  added and committed only after all three inspections returned.
\<close>

definition create_file_in_db ::
  "filesystem \<Rightarrow> database \<Rightarrow> file_dict \<Rightarrow> (py_error + File) \<times> database \<times> fs_call list" where
  "create_file_in_db fs db file =
     (case get_folder_from_db db (file_folder_id file) of
        None \<Rightarrow> (Inl (AttributeError ''NoneType'' ''path''), db, [])
      | Some folder \<Rightarrow>
          let path = output_file folder file in
          (case magic_from_file fs path False of
             Inl e \<Rightarrow> (Inl (OSError e), db, [Magic_from_file path False])
           | Inr magic_text \<Rightarrow>
          (case magic_from_file fs path True of
             Inl e \<Rightarrow> (Inl (OSError e), db, [Magic_from_file path False, Magic_from_file path True])
           | Inr magic_mime \<Rightarrow>
          (case os_stat_st_size fs path of
             Inl e \<Rightarrow> (Inl (OSError e), db,
                        [Magic_from_file path False, Magic_from_file path True, Os_stat path])
           | Inr filesize \<Rightarrow>
               let file1 = file\<lparr> file_magic_text := Some magic_text,
                                 file_magic_mime := Some magic_mime,
                                 file_filesize := Some filesize \<rparr>;
                   file2 = (if \<not> truthy (file_data_type file1)
                            then file1\<lparr> file_data_type := Some ''file:generic'' \<rparr> else file1);
                   db_file = new_File db file2
               in (Inr db_file, db\<lparr> files := files db @ [db_file] \<rparr>,
                   [Magic_from_file path False, Magic_from_file path True, Os_stat path])))))"

text \<open>
  \<^verbatim>\<open>delete_file_from_db\<close> hands the result of \<^verbatim>\<open>db.get\<close> to \<^verbatim>\<open>db.delete\<close> without
  looking at it. \<^verbatim>\<open>Session.delete(None)\<close> raises \<open>UnmappedInstanceError\<close>; on a row it
  removes the row with that primary key, and the commit follows.
\<close>

definition delete_file_from_db :: "database \<Rightarrow> nat \<Rightarrow> (py_error + unit) \<times> database" where
  "delete_file_from_db db i =
     (case Session_get file_id (files db) i of
        None \<Rightarrow> (Inl UnmappedInstanceError, db)
      | Some file \<Rightarrow>
          (Inr (), db\<lparr> files := filter (\<lambda>f. file_id f \<noteq> file_id file) (files db) \<rparr>))"

section \<open>Data access: users (datastores/sql/crud/user.py)\<close>

text \<open>
  Modelled from the spec: \<^verbatim>\<open>get_group_by_name_from_db\<close> and \<^verbatim>\<open>create_group_in_db\<close>
  (crud/group.py) are not among the sources. The first is the lookup of the group of a
  given name, \<^verbatim>\<open>None\<close> when there is none; the second persists a new Group row of the
  given name and returns it.
\<close>

definition get_group_by_name_from_db :: "database \<Rightarrow> string \<Rightarrow> Group option" where
  "get_group_by_name_from_db db name = query_first (\<lambda>g. group_name g = name) (groups db)"

definition create_group_in_db :: "database \<Rightarrow> string \<Rightarrow> Group \<times> database" where
  "create_group_in_db db name =
     (let g = \<lparr> group_id = next_id (map group_id (groups db)), group_name = name \<rparr>
      in (g, db\<lparr> groups := groups db @ [g] \<rparr>))"

definition get_user_from_db :: "database \<Rightarrow> nat \<Rightarrow> User option" where
  "get_user_from_db db i = query_first (\<lambda>u. user_id u = i) (users db)"

definition create_user_in_db :: "database \<Rightarrow> UserCreate \<Rightarrow> User \<times> database" where
  "create_user_in_db db new_user =
     (let (everyone_group, db1) =
            (case get_group_by_name_from_db db ''Everyone'' of
               None \<Rightarrow> create_group_in_db db ''Everyone''
             | Some g \<Rightarrow> (g, db));
          new_db_user =
            \<lparr> user_display_name = user_display_name new_user,
              user_username = user_username new_user,
              user_password_hash = user_password_hash new_user,
              user_password_hash_algorithm = user_password_hash_algorithm new_user,
              user_auth_method = user_auth_method new_user,
              user_email = user_email new_user,
              user_profile_picture_url = user_profile_picture_url new_user,
              user_uuid = user_uuid new_user,
              user_is_admin = user_is_admin new_user,
              user_is_active = user_is_active new_user,
              user_is_robot = user_is_robot new_user,
              user_id = next_id (map user_id (users db1)),
              user_groups = [group_id everyone_group] \<rparr>
      in (new_db_user, db1\<lparr> users := users db1 @ [new_db_user] \<rparr>))"

definition get_user_api_keys_from_db :: "database \<Rightarrow> User \<Rightarrow> UserApiKey list" where
  "get_user_api_keys_from_db db current_user =
     filter (\<lambda>k. apikey_user_id k = user_id current_user) (user_api_keys db)"

definition create_user_api_key_in_db ::
  "database \<Rightarrow> UserApiKeyCreate \<Rightarrow> UserApiKey \<times> database" where
  "create_user_api_key_in_db db apikey =
     (let new_apikey =
            \<lparr> apikey_display_name = apikey_display_name apikey,
              apikey_description = apikey_description apikey,
              apikey_token_jti = apikey_token_jti apikey,
              apikey_token_exp = apikey_token_exp apikey,
              apikey_user_id = apikey_user_id apikey,
              apikey_id = next_id (map apikey_id (user_api_keys db)) \<rparr>
      in (new_apikey, db\<lparr> user_api_keys := user_api_keys db @ [new_apikey] \<rparr>))"

definition delete_user_api_key_from_db :: "database \<Rightarrow> nat \<Rightarrow> User \<Rightarrow> database" where
  "delete_user_api_key_from_db db i current_user =
     (case query_first (\<lambda>k. apikey_id k = i \<and> apikey_user_id k = user_id current_user)
             (user_api_keys db) of
        None \<Rightarrow> db
      | Some api_key \<Rightarrow>
          db\<lparr> user_api_keys :=
                filter (\<lambda>k. apikey_id k \<noteq> apikey_id api_key) (user_api_keys db) \<rparr>)"

definition user_role_exists :: "database \<Rightarrow> nat \<Rightarrow> nat \<Rightarrow> string \<Rightarrow> bool" where
  "user_role_exists db uid fid role =
     (query_first (\<lambda>r. role_user_id r = uid \<and> role_folder_id r = Some fid \<and> role_role r = role)
        (user_roles db) \<noteq> None)"

definition create_user_role_in_db ::
  "database \<Rightarrow> string \<Rightarrow> nat \<Rightarrow> nat option \<Rightarrow> nat option \<Rightarrow> UserRole \<times> database" where
  "create_user_role_in_db db role uid fid file =
     (let user_role = \<lparr> role_id = next_id (map role_id (user_roles db)), role_role = role,
                        role_user_id = uid, role_folder_id = fid, role_file_id = file \<rparr>
      in (user_role, db\<lparr> user_roles := user_roles db @ [user_role] \<rparr>))"

definition delete_user_role_from_db :: "database \<Rightarrow> nat \<Rightarrow> (py_error + unit) \<times> database" where
  "delete_user_role_from_db db i =
     (case query_first (\<lambda>r. role_id r = i) (user_roles db) of
        None \<Rightarrow> (Inl UnmappedInstanceError, db)
      | Some user_role \<Rightarrow>
          (Inr (), db\<lparr> user_roles := filter (\<lambda>r. role_id r \<noteq> role_id user_role) (user_roles db) \<rparr>))"

section \<open>Deleting a Workflow\<close>

text \<open>
  Modelled from the spec: the function that deletes a Workflow is not among the sources;
  what is there are the relationship declarations of models/workflow.py, which decide
  what a session's delete of a Workflow row does to the rows that point to it.
  \<^item> The Tasks whose \<^verbatim>\<open>workflow_id\<close> is the Workflow's id are its \<^verbatim>\<open>tasks\<close>. When the
    relationship cascades deletes they are deleted with it; otherwise the session would
    null their \<^verbatim>\<open>workflow_id\<close>, which is not nullable.
  \<^item> For each deleted Task, the Files whose \<^verbatim>\<open>task_input_id\<close> (\<^verbatim>\<open>task_output_id\<close>) is the
    Task's id are its \<^verbatim>\<open>input_files\<close> (\<^verbatim>\<open>output_files\<close>). When the relationship cascades
    deletes they are deleted; otherwise their reference to the Task is set to null and
    the rows stay.
  \<^item> The rows of the secondary table that name the Workflow go; the Files they name stay.
\<close>

definition detach_input_files :: "nat list \<Rightarrow> File list \<Rightarrow> File list" where
  "detach_input_files deleted rows =
     (if cascades_delete Task_input_files_cascade
      then filter (\<lambda>f. file_task_input_id f \<notin> Some ` set deleted) rows
      else map (\<lambda>f. if file_task_input_id f \<in> Some ` set deleted
                     then f\<lparr> file_task_input_id := None \<rparr> else f) rows)"

definition detach_output_files :: "nat list \<Rightarrow> File list \<Rightarrow> File list" where
  "detach_output_files deleted rows =
     (if cascades_delete Task_output_files_cascade
      then filter (\<lambda>f. file_task_output_id f \<notin> Some ` set deleted) rows
      else map (\<lambda>f. if file_task_output_id f \<in> Some ` set deleted
                     then f\<lparr> file_task_output_id := None \<rparr> else f) rows)"

definition delete_workflow_from_db :: "database \<Rightarrow> nat \<Rightarrow> (py_error + unit) \<times> database" where
  "delete_workflow_from_db db i =
     (case Session_get workflow_id (workflows db) i of
        None \<Rightarrow> (Inl UnmappedInstanceError, db)
      | Some workflow \<Rightarrow>
          if \<not> cascades_delete Workflow_tasks_cascade then (Inl IntegrityError, db)
          else
            let deleted = map task_id
                  (filter (\<lambda>t. task_workflow_id t = workflow_id workflow) (tasks db))
            in (Inr (),
                db\<lparr> tasks := filter (\<lambda>t. task_id t \<notin> set deleted) (tasks db),
                    files := detach_output_files deleted (detach_input_files deleted (files db)),
                    workflows := filter (\<lambda>w. workflow_id w \<noteq> workflow_id workflow) (workflows db),
                    file_workflow_association :=
                      filter (\<lambda>fw. snd fw \<noteq> workflow_id workflow) (file_workflow_association db) \<rparr>))"

section \<open>The status endpoint (api/v1/configs.py)\<close>

text \<open>
  The configuration is a dict loaded from a file: its values are the values of the
  format (null, booleans, integers, strings, lists and dicts with string keys).
  \<open>type_name\<close> is the name Python gives the type in an \<open>AttributeError\<close>.
\<close>

datatype pyval =
    PNone
  | PBool bool
  | PInt int
  | PStr string
  | PList "pyval list"
  | PDict "(string \<times> pyval) list"

fun type_name :: "pyval \<Rightarrow> string" where
  "type_name PNone = ''NoneType''"
| "type_name (PBool b) = ''bool''"
| "type_name (PInt i) = ''int''"
| "type_name (PStr s) = ''str''"
| "type_name (PList xs) = ''list''"
| "type_name (PDict d) = ''dict''"

fun pyval_truthy :: "pyval \<Rightarrow> bool" where
  "pyval_truthy PNone = False"
| "pyval_truthy (PBool b) = b"
| "pyval_truthy (PInt i) = (i \<noteq> 0)"
| "pyval_truthy (PStr s) = (s \<noteq> [])"
| "pyval_truthy (PList xs) = (xs \<noteq> [])"
| "pyval_truthy (PDict d) = (d \<noteq> [])"

text \<open>\<^verbatim>\<open>d.get(k, default)\<close> on a dict.\<close>

definition dict_get :: "(string \<times> pyval) list \<Rightarrow> string \<Rightarrow> pyval \<Rightarrow> pyval" where
  "dict_get d k dflt = (case map_of d k of None \<Rightarrow> dflt | Some v \<Rightarrow> v)"

text \<open>
  \<^verbatim>\<open>service.get("enabled", False)\<close>: only a dict has \<^verbatim>\<open>get\<close>. The comprehension keeps the
  services whose value is truthy, in order, and stops at the first raise.
\<close>

fun service_enabled :: "pyval \<Rightarrow> py_error + bool" where
  "service_enabled (PDict d) = Inr (pyval_truthy (dict_get d ''enabled'' (PBool False)))"
| "service_enabled v = Inl (AttributeError (type_name v) ''get'')"

fun active_services :: "pyval list \<Rightarrow> py_error + pyval list" where
  "active_services [] = Inr []"
| "active_services (service # rest) =
     (case service_enabled service of
        Inl e \<Rightarrow> Inl e
      | Inr enabled \<Rightarrow>
          (case active_services rest of
             Inl e \<Rightarrow> Inl e
           | Inr r \<Rightarrow> Inr (if enabled then service # r else r)))"

text \<open>\<^verbatim>\<open>llms.values()\<close>: only a dict has \<^verbatim>\<open>values\<close>.\<close>

fun py_values :: "pyval \<Rightarrow> py_error + pyval list" where
  "py_values (PDict d) = Inr (map snd d)"
| "py_values v = Inl (AttributeError (type_name v) ''values'')"

text \<open>
  \<^verbatim>\<open>get_system_config\<close> reads the module's \<^verbatim>\<open>config\<close> and the result of
  \<^verbatim>\<open>get_active_cloud_provider()\<close>, which is not among the sources and is a parameter
  here. It has no state to change: it returns the response object or raises.
\<close>

definition get_system_config :: "(string \<times> pyval) list \<Rightarrow> pyval \<Rightarrow> py_error + (string \<times> pyval) list" where
  "get_system_config config active_cloud =
     (let llms = dict_get config ''llms'' (PList []) in
      case py_values llms of
        Inl e \<Rightarrow> Inl e
      | Inr services \<Rightarrow>
          (case active_services services of
             Inl e \<Rightarrow> Inl e
           | Inr active_llms \<Rightarrow>
               Inr [(''active_llms'', PList active_llms),
                    (''data_types'', PList [PStr ''text/csv'', PStr ''text/json'']),
                    (''active_cloud'', active_cloud)]))"

text \<open>
  The web framework answers 200 with the returned object, and 500 when the handler
  raises.
\<close>

definition http_status :: "py_error + 'a \<Rightarrow> nat" where
  "http_status outcome = (case outcome of Inl e \<Rightarrow> 500 | Inr body \<Rightarrow> 200)"

section \<open>Example states\<close>

text \<open>
  A small installation, built with the functions above, at which the theorems below are
  instantiated: one folder, a filesystem that holds three uploaded files under it, two
  users, an API key of the first user and a role.
\<close>

text \<open>
  A Unicode database for the examples. It has the entries of the Unicode character
  database for the code points 0 to 255 (Basic Latin and Latin-1) and 913 to 969 (the
  Greek capital and small letters), and treats every other code point as caseless.
\<close>

definition unicode_sample :: unicode_db where
  "unicode_sample =
     \<lparr> to_lower_full = (\<lambda>c.
          if (192 \<le> c \<and> c \<le> 222 \<and> c \<noteq> 215) \<or> (913 \<le> c \<and> c \<le> 939 \<and> c \<noteq> 930)
          then [c + 32] else [c]),
       is_cased = (\<lambda>c.
          (65 \<le> c \<and> c \<le> 90) \<or> (97 \<le> c \<and> c \<le> 122) \<or> c \<in> set [170, 181, 186]
          \<or> (192 \<le> c \<and> c \<le> 255 \<and> c \<noteq> 215 \<and> c \<noteq> 247)
          \<or> (913 \<le> c \<and> c \<le> 969 \<and> c \<noteq> 930)),
       is_case_ignorable = (\<lambda>c.
          c \<in> set [39, 46, 58, 94, 96, 168, 173, 175, 180, 183, 184]) \<rparr>"

definition empty_db :: database where
  "empty_db = \<lparr> folders = [], files = [], groups = [], users = [], user_api_keys = [],
                user_roles = [], workflows = [], tasks = [], file_workflow_association = [] \<rparr>"

definition case_folder :: Folder where
  "case_folder = \<lparr> folder_id = 7, folder_path = ''/data/case1'' \<rparr>"

definition case_db :: database where
  "case_db = empty_db\<lparr> folders := [case_folder] \<rparr>"

definition case_fs :: filesystem where
  "case_fs =
     \<lparr> magic_from_file = (\<lambda>path mime.
          if path \<in> set [''/data/case1/a.txt'', ''/data/case1/b.txt'', ''/data/case1/c.txt'']
          then Inr (if mime then ''text/plain'' else ''ASCII text'')
          else Inl FileNotFoundError),
       os_stat_st_size = (\<lambda>path.
          if path \<in> set [''/data/case1/a.txt'', ''/data/case1/b.txt'', ''/data/case1/c.txt'']
          then Inr 12
          else Inl FileNotFoundError) \<rparr>"

definition upload :: "string \<Rightarrow> nat \<Rightarrow> file_dict" where
  "upload name folder =
     \<lparr> file_uuid = Some name, file_extension = Some ''txt'', file_folder_id = Some folder,
       file_data_type = None, file_magic_text = None, file_magic_mime = None,
       file_filesize = None, file_task_input_id = None, file_task_output_id = None \<rparr>"

definition stored :: "string \<Rightarrow> nat \<Rightarrow> File" where
  "stored name i =
     \<lparr> file_uuid = Some name, file_extension = Some ''txt'', file_folder_id = Some 7,
       file_data_type = Some ''file:generic'', file_magic_text = Some ''ASCII text'',
       file_magic_mime = Some ''text/plain'', file_filesize = Some 12,
       file_task_input_id = None, file_task_output_id = None, file_id = i \<rparr>"

definition db_A :: database where
  "db_A = fst (snd (create_file_in_db case_fs case_db (upload ''a'' 7)))"

definition db_AB :: database where
  "db_AB = fst (snd (create_file_in_db case_fs db_A (upload ''b'' 7)))"

definition db_ABC :: database where
  "db_ABC = fst (snd (create_file_in_db case_fs db_AB (upload ''c'' 7)))"

definition new_user :: "string \<Rightarrow> UserCreate" where
  "new_user name =
     \<lparr> user_display_name = name, user_username = name, user_password_hash = None,
       user_password_hash_algorithm = None, user_auth_method = ''local'', user_email = None,
       user_profile_picture_url = None, user_uuid = name, user_is_admin = False,
       user_is_active = True, user_is_robot = False \<rparr>"

definition user_row :: "string \<Rightarrow> nat \<Rightarrow> nat list \<Rightarrow> User" where
  "user_row name i gs =
     \<lparr> user_display_name = name, user_username = name, user_password_hash = None,
       user_password_hash_algorithm = None, user_auth_method = ''local'', user_email = None,
       user_profile_picture_url = None, user_uuid = name, user_is_admin = False,
       user_is_active = True, user_is_robot = False, user_id = i, user_groups = gs \<rparr>"

definition alice :: User where
  "alice = fst (create_user_in_db db_ABC (new_user ''alice''))"

definition db_alice :: database where
  "db_alice = snd (create_user_in_db db_ABC (new_user ''alice''))"

definition bob :: User where
  "bob = fst (create_user_in_db db_alice (new_user ''bob''))"

definition db_users :: database where
  "db_users = snd (create_user_in_db db_alice (new_user ''bob''))"

definition cli_key :: "nat \<Rightarrow> UserApiKeyCreate" where
  "cli_key owner =
     \<lparr> apikey_display_name = ''cli'', apikey_description = None, apikey_token_jti = ''jti-1'',
       apikey_token_exp = 1800000000, apikey_user_id = owner \<rparr>"

definition alice_key :: UserApiKey where
  "alice_key = fst (create_user_api_key_in_db db_users (cli_key (user_id alice)))"

definition db_keys :: database where
  "db_keys = snd (create_user_api_key_in_db db_users (cli_key (user_id alice)))"

definition db_roles :: database where
  "db_roles = snd (create_user_role_in_db db_keys ''viewer'' (user_id bob) (Some 7) None)"

definition example_workflow :: "nat \<Rightarrow> Workflow" where
  "example_workflow i =
     \<lparr> workflow_id = i, workflow_display_name = ''triage'', workflow_description = None,
       workflow_uuid = None, workflow_spec_json = None, workflow_user_id = 1,
       workflow_folder_id = Some 7 \<rparr>"

definition example_task :: "nat \<Rightarrow> nat \<Rightarrow> Task" where
  "example_task i w =
     \<lparr> task_id = i, task_display_name = ''strings'', task_description = None,
       task_uuid = ''t'', task_config = None, task_status_short = None,
       task_status_detail = None, task_status_progress = None, task_result = None,
       task_runtime = None, task_error_exception = None, task_error_traceback = None,
       task_user_id = 1, task_workflow_id = w \<rparr>"

text \<open>
  Two workflows: workflow 10 has the tasks 21 and 22, workflow 11 has the task 23. File
  1 is an input of task 21, file 2 an output of task 22, file 3 an input of task 23.
\<close>

definition db_workflows :: database where
  "db_workflows =
     case_db\<lparr> files := [(stored ''a'' 1)\<lparr> file_task_input_id := Some 21 \<rparr>,
                        (stored ''b'' 2)\<lparr> file_task_output_id := Some 22 \<rparr>,
                        (stored ''c'' 3)\<lparr> file_task_input_id := Some 23 \<rparr>],
              workflows := [example_workflow 10, example_workflow 11],
              tasks := [example_task 21 10, example_task 22 10, example_task 23 11],
              file_workflow_association := [(1, 10), (3, 11)] \<rparr>"

section \<open>Properties of the provider registry\<close>

lemma ascii_lower_idem: "ascii_lower (ascii_lower c) = ascii_lower c"
  by (simp add: ascii_lower_def)

lemma ascii_lower_less: "c < 128 \<Longrightarrow> ascii_lower c < 128"
  by (simp add: ascii_lower_def)

lemma lower_chars_ascii:
  "list_all (\<lambda>c. c < 128) s \<Longrightarrow> lower_chars ucd before s = map ascii_lower s"
  by (induction s arbitrary: before) (simp_all add: lowercase_of_def)

lemma lower_ascii: "is_ascii s \<Longrightarrow> lower ucd s = map ascii_lower s"
  by (simp add: lower_def is_ascii_def lower_chars_ascii)

lemma same_letter_ascii_iff:
  assumes "c < 128" and "d < 128"
  shows "same_letter ucd c d \<longleftrightarrow> ascii_lower c = ascii_lower d"
  using assms by (auto simp: same_letter_def lowercase_of_def ascii_lower_def)

lemma equal_up_to_case_ascii_iff:
  assumes "is_ascii a" and "is_ascii b"
  shows "equal_up_to_case ucd a b \<longleftrightarrow> map ascii_lower a = map ascii_lower b"
proof -
  have "list_all2 (same_letter ucd) a b \<longleftrightarrow> list_all2 (\<lambda>c d. ascii_lower c = ascii_lower d) a b"
    using assms unfolding is_ascii_def list_all_iff
    by (auto simp: list_all2_conv_all_nth same_letter_ascii_iff)
  also have "\<dots> \<longleftrightarrow> map ascii_lower a = map ascii_lower b"
    by (auto simp: list_all2_conv_all_nth list_eq_iff_nth_eq)
  finally show ?thesis by (simp add: equal_up_to_case_def)
qed

lemma lower_eq_iff_equal_up_to_case:
  assumes "is_ascii a" and "is_ascii b"
  shows "lower ucd a = lower ucd b \<longleftrightarrow> equal_up_to_case ucd a b"
  using assms by (simp add: lower_ascii equal_up_to_case_ascii_iff)

lemma is_ascii_lower: "is_ascii s \<Longrightarrow> is_ascii (map ascii_lower s)"
  by (simp add: is_ascii_def list_all_iff ascii_lower_less)

lemma lowered_equal_up_to_case:
  assumes "is_ascii s"
  shows "equal_up_to_case ucd (map ascii_lower s) s"
  using assms
  by (simp add: equal_up_to_case_ascii_iff is_ascii_lower ascii_lower_idem comp_def)


lemma register_provider_keeps:
  assumes "map_of reg k = Some X"
  shows "map_of (snd (register_provider ucd reg Z)) k = Some X"
proof (cases "lower ucd (NAME Z) \<in> fst ` set reg")
  case True
  then show ?thesis using assms by (simp add: register_provider_def Let_def)
next
  case False
  moreover have "k \<in> fst ` set reg"
    using assms by (metis domI dom_map_of_conv_image_fst)
  ultimately have "lower ucd (NAME Z) \<noteq> k" by auto
  then show ?thesis
    using assms False by (simp add: register_provider_def Let_def AList.update_conv')
qed

lemma register_providers_keep:
  "map_of reg k = Some X \<Longrightarrow> map_of (register_providers ucd reg zs) k = Some X"
proof (induction zs arbitrary: reg)
  case Nil
  then show ?case by (simp add: register_providers_def)
next
  case (Cons z zs)
  have "map_of (snd (register_provider ucd reg z)) k = Some X"
    using Cons.prems by (rule register_provider_keeps)
  then have "map_of (register_providers ucd (snd (register_provider ucd reg z)) zs) k = Some X"
    by (rule Cons.IH)
  then show ?case by (simp add: register_providers_def)
qed

lemma register_provider_success:
  assumes "fst (register_provider ucd reg X) = Inr ()"
  shows "lower ucd (NAME X) \<notin> fst ` set reg"
    and "snd (register_provider ucd reg X) = reg @ [(lower ucd (NAME X), X)]"
    and "map_of (snd (register_provider ucd reg X)) (lower ucd (NAME X)) = Some X"
proof -
  show fresh: "lower ucd (NAME X) \<notin> fst ` set reg"
    using assms by (auto simp: register_provider_def Let_def split: if_splits)
  then have "AList.update (lower ucd (NAME X)) X reg = reg @ [(lower ucd (NAME X), X)]"
    by (induction reg) auto
  then show "snd (register_provider ucd reg X) = reg @ [(lower ucd (NAME X), X)]"
    using fresh by (simp add: register_provider_def Let_def)
  show "map_of (snd (register_provider ucd reg X)) (lower ucd (NAME X)) = Some X"
    using fresh by (simp add: register_provider_def Let_def AList.update_conv')
qed




lemma fresh_of_no_equal_key:
  assumes "is_ascii s" and "\<forall>k \<in> fst ` set reg. \<not> equal_up_to_case ucd k s"
  shows "lower ucd s \<notin> fst ` set reg"
  using assms lowered_equal_up_to_case [OF assms(1), of ucd] by (auto simp: lower_ascii)

lemma example_names:
  "is_ascii (ascii ''Ollama'')" "is_ascii (ascii ''OLLAMA'')" "is_ascii (ascii ''oLLaMa'')"
  "is_ascii (ascii ''VertexAI'')" "is_ascii (ascii ''VERTEXAI'')" "is_ascii (ascii ''mistral'')"
  "is_ascii (ascii ''ollama'')" "map ascii_lower (ascii ''ollama'') = ascii ''ollama''"
  "map ascii_lower (ascii ''Ollama'') = ascii ''ollama''"
  "map ascii_lower (ascii ''OLLAMA'') = ascii ''ollama''"
  "map ascii_lower (ascii ''oLLaMa'') = ascii ''ollama''"
  "map ascii_lower (ascii ''VertexAI'') = ascii ''vertexai''"
  "map ascii_lower (ascii ''VERTEXAI'') = ascii ''vertexai''"
  "map ascii_lower (ascii ''mistral'') = ascii ''mistral''"
  "ascii ''ollama'' \<noteq> ascii ''vertexai''" "ascii ''ollama'' \<noteq> ascii ''mistral''"
  "ascii ''vertexai'' \<noteq> ascii ''ollama''" "ascii ''mistral'' \<noteq> ascii ''ollama''"
  by (simp_all add: ascii_def is_ascii_def ascii_lower_def)

lemma greek_names:
  "lower unicode_sample [913, 931] = [945, 962]"
  "lower unicode_sample [913, 963] = [945, 963]"
  "equal_up_to_case unicode_sample [913, 931] [913, 963]"
  "equal_up_to_case unicode_sample [913, 963] [913, 931]"
  by (simp_all add: lower_def lowercase_of_def final_sigma_def unicode_sample_def
      equal_up_to_case_def same_letter_def)




text \<open>
  C5, as stated, fails. After \<^verbatim>\<open>\<Alpha>\<Sigma>\<close> (913, 931) is registered, the lookup of \<^verbatim>\<open>\<Alpha>\<sigma>\<close>
  (913, 963), which equals it up to the case of the last letter, raises \<open>KeyError\<close>: the
  stored key ends in the final sigma 962, the lookup key in 963.
\<close>

theorem get_provider_final_sigma_counterexample:
  "fst (register_provider unicode_sample [] \<lparr>NAME = [913, 931]\<rparr>) = Inr ()
   \<and> equal_up_to_case unicode_sample [913, 963] [913, 931]
   \<and> get_provider unicode_sample (snd (register_provider unicode_sample [] \<lparr>NAME = [913, 931]\<rparr>))
        [913, 963]
       = Inl (KeyError (ascii ''No such provider: '' @ [945, 963]))"
  by (simp add: greek_names register_provider_def get_provider_def)

text \<open>
  C5, amended. After a successful \<open>register_provider\<close> of a class \<open>X\<close>, and after any
  further registrations, \<open>get_provider\<close> returns \<open>X\<close> for every lookup name that has the
  lower-cased form of \<^verbatim>\<open>X.NAME\<close>; ASCII names that equal the ASCII \<^verbatim>\<open>X.NAME\<close> up to letter
  case are such names. The lookup goes by the name: an ASCII name that no key of the
  registry equals up to case raises \<open>KeyError\<close> with the lower-cased name.
\<close>

theorem get_provider_after_register:
  assumes "fst (register_provider ucd reg X) = Inr ()"
  shows "(lower ucd n = lower ucd (NAME X) \<longrightarrow>
            get_provider ucd (register_providers ucd (snd (register_provider ucd reg X)) zs) n
              = Inr X)
       \<and> (is_ascii n \<and> is_ascii (NAME X) \<and> equal_up_to_case ucd n (NAME X) \<longrightarrow>
            get_provider ucd (register_providers ucd (snd (register_provider ucd reg X)) zs) n
              = Inr X)
       \<and> (is_ascii m
            \<and> (\<forall>k \<in> fst ` set (snd (register_provider ucd reg X)). \<not> equal_up_to_case ucd k m) \<longrightarrow>
            get_provider ucd (snd (register_provider ucd reg X)) m
              = Inl (KeyError (ascii ''No such provider: '' @ map ascii_lower m)))"
proof -
  have stored: "map_of (register_providers ucd (snd (register_provider ucd reg X)) zs)
      (lower ucd (NAME X)) = Some X"
    using register_provider_success(3) [OF assms] by (rule register_providers_keep)
  have found: "get_provider ucd (register_providers ucd (snd (register_provider ucd reg X)) zs) n
      = Inr X" if "lower ucd n = lower ucd (NAME X)"
    using stored that by (simp add: get_provider_def)
  have found_ascii:
    "get_provider ucd (register_providers ucd (snd (register_provider ucd reg X)) zs) n = Inr X"
    if "is_ascii n" "is_ascii (NAME X)" "equal_up_to_case ucd n (NAME X)"
    using that by (intro found) (simp add: lower_eq_iff_equal_up_to_case)
  have missing: "get_provider ucd (snd (register_provider ucd reg X)) m
      = Inl (KeyError (ascii ''No such provider: '' @ map ascii_lower m))"
    if "is_ascii m"
      "\<forall>k \<in> fst ` set (snd (register_provider ucd reg X)). \<not> equal_up_to_case ucd k m"
  proof -
    have "lower ucd m \<notin> fst ` set (snd (register_provider ucd reg X))"
      using that by (rule fresh_of_no_equal_key)
    then have "map_of (snd (register_provider ucd reg X)) (lower ucd m) = None"
      by (simp add: map_of_eq_None_iff)
    then show ?thesis using that(1) by (simp add: get_provider_def lower_ascii)
  qed
  show ?thesis
    using found found_ascii missing by blast
qed

theorem get_provider_after_register_witness:
  "fst (register_provider unicode_sample [] \<lparr>NAME = ascii ''Ollama''\<rparr>) = Inr ()
   \<and> fst (register_provider unicode_sample [(ascii ''ollama'', \<lparr>NAME = ascii ''Ollama''\<rparr>)]
            \<lparr>NAME = ascii ''VertexAI''\<rparr>) = Inr ()
   \<and> is_ascii (ascii ''oLLaMa'') \<and> is_ascii (ascii ''Ollama'')
   \<and> equal_up_to_case unicode_sample (ascii ''oLLaMa'') (ascii ''Ollama'')
   \<and> lower unicode_sample (ascii ''oLLaMa'') = lower unicode_sample (ascii ''Ollama'')
   \<and> get_provider unicode_sample
        (register_providers unicode_sample
           (snd (register_provider unicode_sample [] \<lparr>NAME = ascii ''Ollama''\<rparr>))
           [\<lparr>NAME = ascii ''VertexAI''\<rparr>])
        (ascii ''oLLaMa'') = Inr \<lparr>NAME = ascii ''Ollama''\<rparr>
   \<and> get_provider unicode_sample
        (snd (register_provider unicode_sample [(ascii ''ollama'', \<lparr>NAME = ascii ''Ollama''\<rparr>)]
           \<lparr>NAME = ascii ''VertexAI''\<rparr>))
        (ascii ''VERTEXAI'') = Inr \<lparr>NAME = ascii ''VertexAI''\<rparr>
   \<and> get_provider unicode_sample
        (snd (register_provider unicode_sample [] \<lparr>NAME = ascii ''Ollama''\<rparr>))
        (ascii ''mistral'') = Inl (KeyError (ascii ''No such provider: '' @ ascii ''mistral''))"
proof -
  have first: "fst (register_provider unicode_sample [] \<lparr>NAME = ascii ''Ollama''\<rparr>) = Inr ()"
    by (simp add: register_provider_def)
  have second: "fst (register_provider unicode_sample
      [(ascii ''ollama'', \<lparr>NAME = ascii ''Ollama''\<rparr>)] \<lparr>NAME = ascii ''VertexAI''\<rparr>) = Inr ()"
    by (simp add: register_provider_def lower_ascii example_names Let_def)
  have same: "equal_up_to_case unicode_sample (ascii ''oLLaMa'') (ascii ''Ollama'')"
    "equal_up_to_case unicode_sample (ascii ''VERTEXAI'') (ascii ''VertexAI'')"
    by (simp_all add: equal_up_to_case_ascii_iff example_names)
  have lowered: "lower unicode_sample (ascii ''oLLaMa'') = lower unicode_sample (ascii ''Ollama'')"
    by (simp add: lower_ascii example_names)
  have keys: "snd (register_provider unicode_sample [] \<lparr>NAME = ascii ''Ollama''\<rparr>)
      = [(ascii ''ollama'', \<lparr>NAME = ascii ''Ollama''\<rparr>)]"
    by (simp add: register_provider_def lower_ascii example_names)
  have other: "\<not> equal_up_to_case unicode_sample (ascii ''ollama'') (ascii ''mistral'')"
    by (simp add: equal_up_to_case_ascii_iff example_names)
  show ?thesis
    using first second same lowered other
      get_provider_after_register [OF first, of "ascii ''oLLaMa''"
        "[\<lparr>NAME = ascii ''VertexAI''\<rparr>]" "ascii ''mistral''"]
      get_provider_after_register [OF second, of "ascii ''VERTEXAI''" "[]"]
    by (simp add: example_names keys register_providers_def)
qed

section \<open>Properties of the persistence primitives\<close>

lemma query_first_None_iff: "query_first P rows = None \<longleftrightarrow> (\<forall>r \<in> set rows. \<not> P r)"
proof -
  have "query_first P rows = None \<longleftrightarrow> filter P rows = []"
    by (simp add: query_first_def split: list.splits)
  then show ?thesis by (simp add: filter_empty_conv)
qed

lemma query_first_SomeD: "query_first P rows = Some r \<Longrightarrow> r \<in> set rows \<and> P r"
proof -
  assume "query_first P rows = Some r"
  then obtain rest where "filter P rows = r # rest"
    by (auto simp: query_first_def split: list.splits)
  then have "r \<in> set (filter P rows)" by simp
  then show ?thesis by simp
qed

lemma query_first_filter_Nil: "query_first P rows = None \<Longrightarrow> filter P rows = []"
  by (simp add: query_first_def split: list.splits)

lemma query_first_filter_Cons: "query_first P rows = Some r \<Longrightarrow> filter P rows \<noteq> []"
  by (auto simp: query_first_def split: list.splits)

lemma Session_get_existing:
  assumes "r \<in> set rows"
  shows "\<exists>r'. Session_get pk rows (pk r) = Some r' \<and> pk r' = pk r"
proof (cases "Session_get pk rows (pk r)")
  case None
  then show ?thesis using assms by (auto simp: Session_get_def query_first_None_iff)
next
  case (Some r')
  then show ?thesis by (auto simp: Session_get_def dest: query_first_SomeD)
qed

text \<open>A new primary key is above every key of the table.\<close>

lemma fold_max_ge: "(a::nat) \<le> fold max xs a"
  by (induction xs arbitrary: a) (auto intro: order_trans [OF max.cobounded2])

lemma fold_max_upper: "x \<in> set xs \<Longrightarrow> (x::nat) \<le> fold max xs a"
proof (induction xs arbitrary: a)
  case Nil
  then show ?case by simp
next
  case (Cons y ys)
  show ?case
  proof (cases "x = y")
    case True
    have "y \<le> max y a" by simp
    also have "\<dots> \<le> fold max ys (max y a)" by (rule fold_max_ge)
    finally show ?thesis using True by simp
  next
    case False
    then show ?thesis using Cons by simp
  qed
qed

lemma next_id_greater: "x \<in> set ids \<Longrightarrow> x < next_id ids"
  by (simp add: next_id_def fold_max_upper less_Suc_eq_le)

lemma primary_keys_unique_snoc:
  assumes "primary_keys_unique pk rows" and "pk r = next_id (map pk rows)"
  shows "primary_keys_unique pk (rows @ [r])"
proof -
  have "pk r \<notin> set (map pk rows)"
    using next_id_greater [of "pk r" "map pk rows"] assms(2) by auto
  then show ?thesis using assms(1) by (simp add: primary_keys_unique_def)
qed

text \<open>Descending order: a row whose key is no smaller than all others comes first.\<close>

lemma insort_key_snoc:
  "key r \<le> key x \<Longrightarrow> \<forall>y \<in> set ys. key y \<le> key x \<Longrightarrow>
   insort_key key r (ys @ [x]) = insort_key key r ys @ [x]"
  for key :: "'a \<Rightarrow> nat"
  by (induction ys) auto

lemma set_foldr_insort: "set (foldr (insort_key key) rows acc) = set rows \<union> set acc"
  by (induction rows) (auto simp: set_insort_key)

lemma foldr_insort_snoc:
  "\<forall>r \<in> set rows. key r \<le> key x \<Longrightarrow>
   foldr (insort_key key) rows [x] = foldr (insort_key key) rows [] @ [x]"
  for key :: "'a \<Rightarrow> nat"
proof (induction rows)
  case Nil
  then show ?case by simp
next
  case (Cons r rows)
  then have ih: "foldr (insort_key key) rows [x] = foldr (insort_key key) rows [] @ [x]"
    by simp
  have "\<forall>y \<in> set (foldr (insort_key key) rows []). key y \<le> key x"
    using Cons.prems by (simp add: set_foldr_insort)
  then show ?case using Cons.prems by (simp add: ih insort_key_snoc)
qed

lemma order_by_desc_snoc:
  "\<forall>r \<in> set rows. key r \<le> key x \<Longrightarrow>
   order_by_desc key (rows @ [x]) = x # order_by_desc key rows"
  by (simp add: order_by_desc_def sort_key_def foldr_insort_snoc)

lemma order_by_desc_sorted: "sorted_wrt (\<lambda>a b. key a \<ge> key b) (order_by_desc key rows)"
proof -
  have "sorted (map key (sort_key key rows))" by simp
  then have "sorted_wrt (\<lambda>a b. key a \<le> key b) (sort_key key rows)"
    by (simp add: sorted_map)
  then show ?thesis
    by (simp add: order_by_desc_def sorted_wrt_rev)
qed

lemma order_by_desc_strict:
  assumes "distinct (map key rows)"
  shows "sorted_wrt (\<lambda>a b. key a > key b) (order_by_desc key rows)"
proof -
  have "sorted (map key (sort_key key rows))" by simp
  moreover have "distinct (map key (sort_key key rows))"
    using assms by (simp add: distinct_map)
  ultimately have "sorted_wrt (<) (map key (sort_key key rows))"
    by (simp add: strict_sorted_iff)
  then have "sorted_wrt (\<lambda>a b. key a < key b) (sort_key key rows)"
    by (simp add: sorted_wrt_map)
  then show ?thesis
    by (simp add: order_by_desc_def sorted_wrt_rev)
qed

lemma mset_order_by_desc: "mset (order_by_desc key rows) = mset rows"
  by (simp add: order_by_desc_def)

section \<open>The example states, evaluated\<close>

lemma upload_sel:
  "file_uuid (upload n f) = Some n" "file_extension (upload n f) = Some ''txt''"
  "file_folder_id (upload n f) = Some f" "file_data_type (upload n f) = None"
  "file_task_input_id (upload n f) = None" "file_task_output_id (upload n f) = None"
  by (simp_all add: upload_def)

lemma case_paths:
  "output_file case_folder (upload ''a'' 7) = ''/data/case1/a.txt''"
  "output_file case_folder (upload ''b'' 7) = ''/data/case1/b.txt''"
  "output_file case_folder (upload ''c'' 7) = ''/data/case1/c.txt''"
  "output_file case_folder (upload ''z'' 7) = ''/data/case1/z.txt''"
  by (simp_all add: output_file_def filename_def os_path_join_def case_folder_def upload_sel
      truthy_def py_str_def)

lemma case_fs_ok:
  "p \<in> set [''/data/case1/a.txt'', ''/data/case1/b.txt'', ''/data/case1/c.txt''] \<Longrightarrow>
   magic_from_file case_fs p False = Inr ''ASCII text''
   \<and> magic_from_file case_fs p True = Inr ''text/plain''
   \<and> os_stat_st_size case_fs p = Inr 12"
  by (simp add: case_fs_def)

lemma case_folder_found:
  "folders db = [case_folder] \<Longrightarrow>
   get_folder_from_db db (file_folder_id (upload n 7)) = Some case_folder"
  by (simp add: get_folder_from_db_def Session_get_def query_first_def upload_sel case_folder_def)

lemma create_in_case_folder:
  assumes "folders db = [case_folder]"
    and "output_file case_folder (upload n 7) = p"
    and "p \<in> set [''/data/case1/a.txt'', ''/data/case1/b.txt'', ''/data/case1/c.txt'']"
  shows "create_file_in_db case_fs db (upload n 7) =
     (Inr (stored n (next_id (map file_id (files db)))),
      db\<lparr> files := files db @ [stored n (next_id (map file_id (files db)))] \<rparr>,
      [Magic_from_file p False, Magic_from_file p True, Os_stat p])"
proof -
  have "new_File db ((upload n 7)\<lparr> file_magic_text := Some ''ASCII text'',
        file_magic_mime := Some ''text/plain'', file_filesize := Some 12,
        file_data_type := Some ''file:generic'' \<rparr>) = stored n (next_id (map file_id (files db)))"
    by (simp add: new_File_def stored_def upload_sel)
  then show ?thesis
    using case_fs_ok [OF assms(3)] assms(2) case_folder_found [OF assms(1), of n]
    by (simp add: create_file_in_db_def Let_def truthy_def upload_sel)
qed

lemma db_A_eq: "db_A = case_db\<lparr> files := [stored ''a'' 1] \<rparr>"
proof -
  have "folders case_db = [case_folder]" "files case_db = []"
    by (simp_all add: case_db_def empty_db_def)
  then show ?thesis
    unfolding db_A_def
    by (simp add: create_in_case_folder [OF _ case_paths(1)] next_id_def)
qed

lemma db_AB_eq: "db_AB = case_db\<lparr> files := [stored ''a'' 1, stored ''b'' 2] \<rparr>"
proof -
  have "folders db_A = [case_folder]" "files db_A = [stored ''a'' 1]"
    by (simp_all add: db_A_eq case_db_def empty_db_def)
  then show ?thesis
    unfolding db_AB_def
    by (simp add: create_in_case_folder [OF _ case_paths(2)] next_id_def stored_def db_A_eq)
qed

lemma db_ABC_eq: "db_ABC = case_db\<lparr> files := [stored ''a'' 1, stored ''b'' 2, stored ''c'' 3] \<rparr>"
proof -
  have "folders db_AB = [case_folder]" "files db_AB = [stored ''a'' 1, stored ''b'' 2]"
    by (simp_all add: db_AB_eq case_db_def empty_db_def)
  then show ?thesis
    unfolding db_ABC_def
    by (simp add: create_in_case_folder [OF _ case_paths(3)] next_id_def stored_def db_AB_eq)
qed

lemma create_alice:
  "create_user_in_db db_ABC (new_user ''alice'') =
     (user_row ''alice'' 1 [1],
      db_ABC\<lparr> groups := [\<lparr> group_id = 1, group_name = ''Everyone'' \<rparr>],
               users := [user_row ''alice'' 1 [1]] \<rparr>)"
  by (simp add: create_user_in_db_def create_group_in_db_def get_group_by_name_from_db_def
      query_first_def db_ABC_eq case_db_def empty_db_def next_id_def new_user_def user_row_def
      Let_def)

lemma alice_eq: "alice = user_row ''alice'' 1 [1]"
  and db_alice_eq: "db_alice = db_ABC\<lparr> groups := [\<lparr> group_id = 1, group_name = ''Everyone'' \<rparr>],
               users := [user_row ''alice'' 1 [1]] \<rparr>"
  by (simp_all add: alice_def db_alice_def create_alice)

lemma create_bob:
  "create_user_in_db db_alice (new_user ''bob'') =
     (user_row ''bob'' 2 [1], db_alice\<lparr> users := [user_row ''alice'' 1 [1], user_row ''bob'' 2 [1]] \<rparr>)"
  by (simp add: create_user_in_db_def get_group_by_name_from_db_def
      query_first_def db_alice_eq next_id_def new_user_def user_row_def Let_def)

lemma bob_eq: "bob = user_row ''bob'' 2 [1]"
  and db_users_eq: "db_users = db_alice\<lparr> users := [user_row ''alice'' 1 [1], user_row ''bob'' 2 [1]] \<rparr>"
  by (simp_all add: bob_def db_users_def create_bob)

lemma user_api_keys_db_users: "user_api_keys db_users = []"
  by (simp add: db_users_eq db_alice_eq db_ABC_eq case_db_def empty_db_def)

lemma alice_key_eq:
  "alice_key = \<lparr> apikey_display_name = ''cli'', apikey_description = None,
       apikey_token_jti = ''jti-1'', apikey_token_exp = 1800000000, apikey_user_id = 1,
       apikey_id = 1 \<rparr>"
  by (simp add: alice_key_def create_user_api_key_in_db_def cli_key_def user_api_keys_db_users
      next_id_def alice_eq user_row_def Let_def)

lemma user_api_keys_db_keys: "user_api_keys db_keys = [alice_key]"
  by (simp add: db_keys_def alice_key_def create_user_api_key_in_db_def Let_def
      user_api_keys_db_users)

lemma db_roles_tables:
  "files db_roles = [stored ''a'' 1, stored ''b'' 2, stored ''c'' 3]"
  "user_roles db_roles = [\<lparr> role_id = 1, role_role = ''viewer'', role_user_id = 2,
                           role_folder_id = Some 7, role_file_id = None \<rparr>]"
  by (simp_all add: db_roles_def create_user_role_in_db_def db_keys_def
      create_user_api_key_in_db_def db_users_eq db_alice_eq db_ABC_eq case_db_def empty_db_def
      next_id_def bob_eq user_row_def Let_def)

section \<open>Properties of the file functions\<close>

lemma create_file_in_db_Inr:
  assumes "create_file_in_db fs db file = (Inr F, db', calls)"
  shows "files db' = files db @ [F] \<and> file_id F = next_id (map file_id (files db))
       \<and> file_folder_id F = file_folder_id file"
  using assms
  by (auto simp: create_file_in_db_def Let_def new_File_def split: option.splits sum.splits)

lemma create_file_in_db_keeps_keys_unique:
  assumes "create_file_in_db fs db file = (Inr F, db', calls)"
    and "primary_keys_unique file_id (files db)"
  shows "primary_keys_unique file_id (files db')"
  using create_file_in_db_Inr [OF assms(1)] primary_keys_unique_snoc [OF assms(2)] by simp

lemma get_files_after_create:
  assumes "create_file_in_db fs db file = (Inr F, db', calls)"
    and "file_folder_id file = Some fid"
  shows "get_files_from_db db' fid = F # get_files_from_db db fid"
proof -
  from create_file_in_db_Inr [OF assms(1)]
  have f: "files db' = files db @ [F]" and i: "file_id F = next_id (map file_id (files db))"
    and fo: "file_folder_id F = Some fid"
    using assms(2) by simp_all
  have "\<forall>r \<in> set (filter (\<lambda>f. file_folder_id f = Some fid) (files db)). file_id r \<le> file_id F"
  proof
    fix r assume "r \<in> set (filter (\<lambda>f. file_folder_id f = Some fid) (files db))"
    then have "file_id r \<in> set (map file_id (files db))" by simp
    then have "file_id r < next_id (map file_id (files db))" by (rule next_id_greater)
    then show "file_id r \<le> file_id F" using i by simp
  qed
  then show ?thesis
    by (simp add: get_files_from_db_def f fo order_by_desc_snoc)
qed

text \<open>
  C8. \<open>get_files_from_db\<close> returns exactly the File rows of the folder (as a multiset:
  each matching row once, nothing else), ordered by descending id; the order is strictly
  descending when the ids are unique, as the primary key makes them. Files created in
  the order A, B, C in the same folder are listed C, B, A, before the files the folder
  already had.
\<close>

theorem get_files_from_db_descending:
  "mset (get_files_from_db db fid)
     = filter_mset (\<lambda>f. file_folder_id f = Some fid) (mset (files db))
   \<and> sorted_wrt (\<lambda>x y. file_id x \<ge> file_id y) (get_files_from_db db fid)
   \<and> (primary_keys_unique file_id (files db) \<longrightarrow>
        sorted_wrt (\<lambda>x y. file_id x > file_id y) (get_files_from_db db fid))
   \<and> (create_file_in_db fs1 db a = (Inr A, db1, calls1)
        \<and> create_file_in_db fs2 db1 b = (Inr B, db2, calls2)
        \<and> create_file_in_db fs3 db2 c = (Inr C, db3, calls3)
        \<and> file_folder_id a = Some fid \<and> file_folder_id b = Some fid
        \<and> file_folder_id c = Some fid \<longrightarrow>
        get_files_from_db db3 fid = C # B # A # get_files_from_db db fid)"
proof -
  have exact: "mset (get_files_from_db db fid)
     = filter_mset (\<lambda>f. file_folder_id f = Some fid) (mset (files db))"
    by (simp add: get_files_from_db_def mset_order_by_desc)
  have desc: "sorted_wrt (\<lambda>x y. file_id x \<ge> file_id y) (get_files_from_db db fid)"
    unfolding get_files_from_db_def by (rule order_by_desc_sorted)
  have strict: "sorted_wrt (\<lambda>x y. file_id x > file_id y) (get_files_from_db db fid)"
    if "primary_keys_unique file_id (files db)"
  proof -
    have "distinct (map file_id (filter (\<lambda>f. file_folder_id f = Some fid) (files db)))"
      using that by (simp add: primary_keys_unique_def distinct_map_filter)
    then show ?thesis
      unfolding get_files_from_db_def by (rule order_by_desc_strict)
  qed
  have listing: "get_files_from_db db3 fid = C # B # A # get_files_from_db db fid"
    if "create_file_in_db fs1 db a = (Inr A, db1, calls1)"
      and "create_file_in_db fs2 db1 b = (Inr B, db2, calls2)"
      and "create_file_in_db fs3 db2 c = (Inr C, db3, calls3)"
      and "file_folder_id a = Some fid" and "file_folder_id b = Some fid"
      and "file_folder_id c = Some fid"
    using get_files_after_create [OF that(1) that(4)] get_files_after_create [OF that(2) that(5)]
      get_files_after_create [OF that(3) that(6)]
    by simp
  show ?thesis
    using exact desc strict listing by blast
qed

theorem get_files_from_db_descending_witness:
  "primary_keys_unique file_id (files db_ABC)
   \<and> sorted_wrt (\<lambda>x y. file_id x > file_id y) (get_files_from_db db_ABC 7)
   \<and> create_file_in_db case_fs case_db (upload ''a'' 7)
       = (Inr (stored ''a'' 1), db_A,
          [Magic_from_file ''/data/case1/a.txt'' False, Magic_from_file ''/data/case1/a.txt'' True,
           Os_stat ''/data/case1/a.txt''])
   \<and> create_file_in_db case_fs db_A (upload ''b'' 7)
       = (Inr (stored ''b'' 2), db_AB,
          [Magic_from_file ''/data/case1/b.txt'' False, Magic_from_file ''/data/case1/b.txt'' True,
           Os_stat ''/data/case1/b.txt''])
   \<and> create_file_in_db case_fs db_AB (upload ''c'' 7)
       = (Inr (stored ''c'' 3), db_ABC,
          [Magic_from_file ''/data/case1/c.txt'' False, Magic_from_file ''/data/case1/c.txt'' True,
           Os_stat ''/data/case1/c.txt''])
   \<and> file_folder_id (upload ''a'' 7) = Some 7
   \<and> get_files_from_db db_ABC 7 = [stored ''c'' 3, stored ''b'' 2, stored ''a'' 1]"
proof -
  have keys: "primary_keys_unique file_id (files db_ABC)"
    by (simp add: primary_keys_unique_def db_ABC_eq stored_def)
  have A: "create_file_in_db case_fs case_db (upload ''a'' 7)
       = (Inr (stored ''a'' 1), db_A,
          [Magic_from_file ''/data/case1/a.txt'' False, Magic_from_file ''/data/case1/a.txt'' True,
           Os_stat ''/data/case1/a.txt''])"
    by (simp add: create_in_case_folder [OF _ case_paths(1)] db_A_eq next_id_def case_db_def
        empty_db_def)
  have B: "create_file_in_db case_fs db_A (upload ''b'' 7)
       = (Inr (stored ''b'' 2), db_AB,
          [Magic_from_file ''/data/case1/b.txt'' False, Magic_from_file ''/data/case1/b.txt'' True,
           Os_stat ''/data/case1/b.txt''])"
    by (simp add: create_in_case_folder [OF _ case_paths(2)] db_A_eq db_AB_eq next_id_def
        case_db_def empty_db_def stored_def)
  have C: "create_file_in_db case_fs db_AB (upload ''c'' 7)
       = (Inr (stored ''c'' 3), db_ABC,
          [Magic_from_file ''/data/case1/c.txt'' False, Magic_from_file ''/data/case1/c.txt'' True,
           Os_stat ''/data/case1/c.txt''])"
    by (simp add: create_in_case_folder [OF _ case_paths(3)] db_AB_eq db_ABC_eq next_id_def
        case_db_def empty_db_def stored_def)
  have folder: "file_folder_id (upload n 7) = Some 7" for n
    by (simp add: upload_sel)
  have before: "get_files_from_db case_db 7 = []"
    by (simp add: get_files_from_db_def order_by_desc_def case_db_def empty_db_def)
  have strict: "sorted_wrt (\<lambda>x y. file_id x > file_id y) (get_files_from_db db_ABC 7)"
    using get_files_from_db_descending [of db_ABC 7] keys by blast
  have listing: "get_files_from_db db_ABC 7 = [stored ''c'' 3, stored ''b'' 2, stored ''a'' 1]"
    using get_files_from_db_descending [of case_db 7 case_fs "upload ''a'' 7" "stored ''a'' 1" db_A _
        case_fs "upload ''b'' 7" "stored ''b'' 2" db_AB _ case_fs "upload ''c'' 7" "stored ''c'' 3"
        db_ABC]
      A B C folder before by simp
  show ?thesis
    using keys strict A B C folder listing by simp
qed

text \<open>
  C6. When the folder exists and any of the three filesystem inspections of the derived
  path fails, \<open>create_file_in_db\<close> raises the filesystem's error and the database after
  the call is the database before it: no File row is persisted.
\<close>

theorem create_file_in_db_inspection_failure:
  assumes "get_folder_from_db db (file_folder_id file) = Some folder"
    and "magic_from_file fs (output_file folder file) False = Inl e
       \<or> magic_from_file fs (output_file folder file) True = Inl e
       \<or> os_stat_st_size fs (output_file folder file) = Inl e"
  shows "(\<exists>e'. fst (create_file_in_db fs db file) = Inl (OSError e'))
       \<and> fst (snd (create_file_in_db fs db file)) = db"
  using assms
  by (auto simp: create_file_in_db_def Let_def split: option.splits sum.splits)

theorem create_file_in_db_inspection_failure_witness:
  "get_folder_from_db case_db (file_folder_id (upload ''z'' 7)) = Some case_folder
   \<and> magic_from_file case_fs (output_file case_folder (upload ''z'' 7)) False
       = Inl FileNotFoundError
   \<and> (\<exists>e'. fst (create_file_in_db case_fs case_db (upload ''z'' 7)) = Inl (OSError e'))
   \<and> fst (snd (create_file_in_db case_fs case_db (upload ''z'' 7))) = case_db"
proof -
  have folder: "get_folder_from_db case_db (file_folder_id (upload ''z'' 7)) = Some case_folder"
    by (rule case_folder_found) (simp add: case_db_def empty_db_def)
  have missing: "magic_from_file case_fs (output_file case_folder (upload ''z'' 7)) False
       = Inl FileNotFoundError"
    by (simp add: case_paths case_fs_def)
  show ?thesis
    using folder missing
      create_file_in_db_inspection_failure [OF folder, of case_fs FileNotFoundError]
    by simp
qed

text \<open>
  C10. When \<^verbatim>\<open>folder_id\<close> resolves to no Folder row, \<open>create_file_in_db\<close> raises the
  \<open>AttributeError\<close> of \<^verbatim>\<open>None.path\<close> with the database unchanged and no filesystem
  inspection made. When the folder exists, the call raises no \<open>AttributeError\<close>.
\<close>

theorem create_file_in_db_missing_folder:
  "(get_folder_from_db db (file_folder_id file) = None \<longrightarrow>
      create_file_in_db fs db file = (Inl (AttributeError ''NoneType'' ''path''), db, []))
 \<and> (get_folder_from_db db (file_folder_id file) \<noteq> None \<longrightarrow>
      (\<forall>t a. fst (create_file_in_db fs db file) \<noteq> Inl (AttributeError t a)))"
  by (auto simp: create_file_in_db_def Let_def split: option.splits sum.splits)

theorem create_file_in_db_missing_folder_witness:
  "get_folder_from_db empty_db (file_folder_id (upload ''a'' 7)) = None
   \<and> create_file_in_db case_fs empty_db (upload ''a'' 7)
       = (Inl (AttributeError ''NoneType'' ''path''), empty_db, [])
   \<and> get_folder_from_db case_db (file_folder_id (upload ''a'' 7)) \<noteq> None
   \<and> fst (create_file_in_db case_fs case_db (upload ''a'' 7))
       \<noteq> Inl (AttributeError ''NoneType'' ''path'')"
proof -
  have absent: "get_folder_from_db empty_db (file_folder_id (upload ''a'' 7)) = None"
    by (simp add: get_folder_from_db_def Session_get_def query_first_def upload_sel empty_db_def)
  have present: "get_folder_from_db case_db (file_folder_id (upload ''a'' 7)) \<noteq> None"
    using case_folder_found [of case_db "''a''"] by (simp add: case_db_def empty_db_def)
  show ?thesis
    using absent present
      create_file_in_db_missing_folder [of empty_db "upload ''a'' 7" case_fs]
      create_file_in_db_missing_folder [of case_db "upload ''a'' 7" case_fs]
    by simp
qed

text \<open>
  C1. The code diverges from the claim. With an id for which no File row (no UserRole
  row) exists, \<open>delete_file_from_db\<close> (\<open>delete_user_role_from_db\<close>) hands \<^verbatim>\<open>None\<close> to the
  session's \<^verbatim>\<open>delete\<close> and raises \<open>UnmappedInstanceError\<close>; it is not silent. The
  database is left unchanged.
\<close>

theorem delete_of_missing_row_raises:
  assumes "i \<notin> file_id ` set (files db)" and "j \<notin> role_id ` set (user_roles db)"
  shows "delete_file_from_db db i = (Inl UnmappedInstanceError, db)
       \<and> delete_user_role_from_db db j = (Inl UnmappedInstanceError, db)"
proof -
  have "Session_get file_id (files db) i = None"
    using assms(1) by (auto simp: Session_get_def query_first_None_iff)
  moreover have "query_first (\<lambda>r. role_id r = j) (user_roles db) = None"
    using assms(2) by (auto simp: query_first_None_iff)
  ultimately show ?thesis
    by (simp add: delete_file_from_db_def delete_user_role_from_db_def)
qed

theorem delete_of_missing_row_raises_witness:
  "4 \<notin> file_id ` set (files db_roles) \<and> 2 \<notin> role_id ` set (user_roles db_roles)
   \<and> delete_file_from_db db_roles 4 = (Inl UnmappedInstanceError, db_roles)
   \<and> delete_user_role_from_db db_roles 2 = (Inl UnmappedInstanceError, db_roles)"
proof -
  have no_file: "4 \<notin> file_id ` set (files db_roles)"
    by (simp add: db_roles_tables stored_def)
  have no_role: "2 \<notin> role_id ` set (user_roles db_roles)"
    by (simp add: db_roles_tables)
  show ?thesis
    using no_file no_role delete_of_missing_row_raises [OF no_file no_role] by simp
qed

section \<open>Properties of the user functions\<close>

lemma delete_user_api_key_no_match:
  assumes "\<forall>k \<in> set (user_api_keys db). apikey_id k = i \<longrightarrow> apikey_user_id k \<noteq> user_id cu"
  shows "delete_user_api_key_from_db db i cu = db"
proof -
  have "query_first (\<lambda>k. apikey_id k = i \<and> apikey_user_id k = user_id cu) (user_api_keys db) = None"
    using assms by (auto simp: query_first_None_iff)
  then show ?thesis by (simp add: delete_user_api_key_from_db_def)
qed

text \<open>
  C7. For an API key whose owner is not the calling user, \<open>delete_user_api_key_from_db\<close>
  with that key's id is a no-op: the database is unchanged, so the key row remains and
  no row is deleted. (The id identifies the key: ids are unique in the table.)
\<close>

theorem delete_user_api_key_other_owner:
  assumes "primary_keys_unique apikey_id (user_api_keys db)"
    and "k \<in> set (user_api_keys db)"
    and "apikey_user_id k \<noteq> user_id current_user"
  shows "delete_user_api_key_from_db db (apikey_id k) current_user = db
       \<and> k \<in> set (user_api_keys (delete_user_api_key_from_db db (apikey_id k) current_user))"
proof -
  have "\<forall>k' \<in> set (user_api_keys db). apikey_id k' = apikey_id k \<longrightarrow> k' = k"
    using assms(1,2) by (auto simp: primary_keys_unique_def distinct_map dest: inj_onD)
  then have "\<forall>k' \<in> set (user_api_keys db).
      apikey_id k' = apikey_id k \<longrightarrow> apikey_user_id k' \<noteq> user_id current_user"
    using assms(3) by auto
  then have "delete_user_api_key_from_db db (apikey_id k) current_user = db"
    by (rule delete_user_api_key_no_match)
  then show ?thesis using assms(2) by simp
qed

theorem delete_user_api_key_other_owner_witness:
  "primary_keys_unique apikey_id (user_api_keys db_keys)
   \<and> alice_key \<in> set (user_api_keys db_keys)
   \<and> apikey_user_id alice_key \<noteq> user_id bob
   \<and> delete_user_api_key_from_db db_keys (apikey_id alice_key) bob = db_keys
   \<and> user_api_keys (delete_user_api_key_from_db db_keys (apikey_id alice_key) alice) = []"
proof -
  have keys: "primary_keys_unique apikey_id (user_api_keys db_keys)"
    by (simp add: primary_keys_unique_def user_api_keys_db_keys)
  have row: "alice_key \<in> set (user_api_keys db_keys)"
    by (simp add: user_api_keys_db_keys)
  have other: "apikey_user_id alice_key \<noteq> user_id bob"
    by (simp add: alice_key_eq bob_eq user_row_def)
  have own: "user_api_keys (delete_user_api_key_from_db db_keys (apikey_id alice_key) alice) = []"
    by (simp add: delete_user_api_key_from_db_def query_first_def user_api_keys_db_keys
        alice_key_eq alice_eq user_row_def)
  show ?thesis
    using keys row other own delete_user_api_key_other_owner [OF keys row other] by simp
qed

lemma create_user_in_db_absent:
  assumes "get_group_by_name_from_db db ''Everyone'' = None"
    and "create_user_in_db db n = (u, db')"
  shows "groups db' = groups db @ [\<lparr> group_id = next_id (map group_id (groups db)), group_name = ''Everyone'' \<rparr>]
       \<and> get_group_by_name_from_db db' ''Everyone''
            = Some \<lparr> group_id = next_id (map group_id (groups db)), group_name = ''Everyone'' \<rparr>
       \<and> user_groups u = [next_id (map group_id (groups db))]
       \<and> users db' = users db @ [u]"
proof -
  have nil: "filter (\<lambda>g. group_name g = ''Everyone'') (groups db) = []"
    using assms(1) by (simp add: get_group_by_name_from_db_def query_first_filter_Nil)
  have g: "groups db' = groups db @ [\<lparr> group_id = next_id (map group_id (groups db)), group_name = ''Everyone'' \<rparr>]"
    and u: "user_groups u = [next_id (map group_id (groups db))]"
    and us: "users db' = users db @ [u]"
    using assms by (auto simp: create_user_in_db_def create_group_in_db_def Let_def)
  have "get_group_by_name_from_db db' ''Everyone''
            = Some \<lparr> group_id = next_id (map group_id (groups db)), group_name = ''Everyone'' \<rparr>"
    by (simp add: get_group_by_name_from_db_def query_first_def g nil)
  then show ?thesis using g u us by simp
qed

lemma create_user_in_db_present:
  assumes "get_group_by_name_from_db db ''Everyone'' = Some g"
    and "create_user_in_db db n = (u, db')"
  shows "groups db' = groups db
       \<and> get_group_by_name_from_db db' ''Everyone'' = Some g
       \<and> user_groups u = [group_id g]
       \<and> users db' = users db @ [u]"
proof -
  have g: "groups db' = groups db" and u: "user_groups u = [group_id g]"
    and us: "users db' = users db @ [u]"
    using assms by (auto simp: create_user_in_db_def Let_def)
  have "get_group_by_name_from_db db' ''Everyone'' = Some g"
    using assms(1) by (simp add: get_group_by_name_from_db_def g)
  then show ?thesis using g u us by simp
qed

lemma create_user_in_db_member:
  assumes "create_user_in_db db n = (u, db')"
  shows "\<exists>g. get_group_by_name_from_db db' ''Everyone'' = Some g \<and> user_groups u = [group_id g]"
proof (cases "get_group_by_name_from_db db ''Everyone''")
  case None
  from create_user_in_db_absent [OF None assms] show ?thesis by simp
next
  case (Some g)
  from create_user_in_db_present [OF Some assms] show ?thesis by simp
qed

lemma everyone_rows_after_create:
  assumes "create_user_in_db db n = (u, db')"
  shows "length (filter (\<lambda>g. group_name g = ''Everyone'') (groups db'))
       = max 1 (length (filter (\<lambda>g. group_name g = ''Everyone'') (groups db)))"
proof (cases "get_group_by_name_from_db db ''Everyone''")
  case None
  then have "filter (\<lambda>g. group_name g = ''Everyone'') (groups db) = []"
    by (simp add: get_group_by_name_from_db_def query_first_filter_Nil)
  then show ?thesis
    using create_user_in_db_absent [OF None assms] by simp
next
  case (Some g)
  then have "filter (\<lambda>g. group_name g = ''Everyone'') (groups db) \<noteq> []"
    by (simp add: get_group_by_name_from_db_def query_first_filter_Cons)
  then have "1 \<le> length (filter (\<lambda>g. group_name g = ''Everyone'') (groups db))"
    by (simp add: Suc_le_eq)
  then show ?thesis
    using create_user_in_db_present [OF Some assms] by simp
qed

text \<open>
  C2. A user created by \<open>create_user_in_db\<close> is a member of the group that the lookup of
  \<^verbatim>\<open>Everyone\<close> finds after the call. Of two users created in sequence both are members of
  that same Group row; the second call leaves the groups table as the first left it. The
  first call appends one \<^verbatim>\<open>Everyone\<close> row when the lookup finds none, so that a database
  without such a row has exactly one after both calls, and a database that has some keeps
  their number.
\<close>

theorem create_user_in_db_everyone:
  assumes "create_user_in_db db n1 = (u1, db1)"
    and "create_user_in_db db1 n2 = (u2, db2)"
  shows "(\<exists>g. get_group_by_name_from_db db1 ''Everyone'' = Some g
            \<and> get_group_by_name_from_db db2 ''Everyone'' = Some g
            \<and> user_groups u1 = [group_id g] \<and> user_groups u2 = [group_id g])
       \<and> groups db2 = groups db1
       \<and> (get_group_by_name_from_db db ''Everyone'' = None \<longrightarrow>
            groups db1 = groups db @ [\<lparr> group_id = next_id (map group_id (groups db)),
                                         group_name = ''Everyone'' \<rparr>])
       \<and> length (filter (\<lambda>g. group_name g = ''Everyone'') (groups db2))
           = max 1 (length (filter (\<lambda>g. group_name g = ''Everyone'') (groups db)))
       \<and> users db2 = users db @ [u1, u2]"
proof -
  obtain g where g1: "get_group_by_name_from_db db1 ''Everyone'' = Some g"
    and m1: "user_groups u1 = [group_id g]"
    using create_user_in_db_member [OF assms(1)] by blast
  note second = create_user_in_db_present [OF g1 assms(2)]
  have first_absent: "get_group_by_name_from_db db ''Everyone'' = None \<longrightarrow>
      groups db1 = groups db @ [\<lparr> group_id = next_id (map group_id (groups db)),
                                   group_name = ''Everyone'' \<rparr>]"
    using create_user_in_db_absent [OF _ assms(1)] by simp
  have users1: "users db1 = users db @ [u1]"
    using create_user_in_db_absent [OF _ assms(1)] create_user_in_db_present [OF _ assms(1)]
    by (cases "get_group_by_name_from_db db ''Everyone''") auto
  have count: "length (filter (\<lambda>g. group_name g = ''Everyone'') (groups db2))
           = max 1 (length (filter (\<lambda>g. group_name g = ''Everyone'') (groups db)))"
    using everyone_rows_after_create [OF assms(1)] second by simp
  show ?thesis
    using g1 m1 second first_absent users1 count by simp
qed

theorem create_user_in_db_everyone_witness:
  "create_user_in_db db_ABC (new_user ''alice'') = (alice, db_alice)
   \<and> create_user_in_db db_alice (new_user ''bob'') = (bob, db_users)
   \<and> get_group_by_name_from_db db_ABC ''Everyone'' = None
   \<and> user_groups alice = user_groups bob
   \<and> groups db_users = [\<lparr> group_id = 1, group_name = ''Everyone'' \<rparr>]
   \<and> length (filter (\<lambda>g. group_name g = ''Everyone'') (groups db_users)) = 1
   \<and> users db_users = [alice, bob]"
proof -
  have first: "create_user_in_db db_ABC (new_user ''alice'') = (alice, db_alice)"
    by (simp add: alice_def db_alice_def)
  have second: "create_user_in_db db_alice (new_user ''bob'') = (bob, db_users)"
    by (simp add: bob_def db_users_def)
  have none: "groups db_ABC = []" "users db_ABC = []"
    by (simp_all add: db_ABC_eq case_db_def empty_db_def)
  then have absent: "get_group_by_name_from_db db_ABC ''Everyone'' = None"
    by (simp add: get_group_by_name_from_db_def query_first_def)
  show ?thesis
    using first second absent none create_user_in_db_everyone [OF first second]
    by (auto simp: next_id_def)
qed

section \<open>Properties of Workflow deletion\<close>

lemma Workflow_tasks_cascades: "cascades_delete Workflow_tasks_cascade"
  by (simp add: cascades_delete_def Workflow_tasks_cascade_def)

lemma Task_files_do_not_cascade:
  "\<not> cascades_delete Task_input_files_cascade" "\<not> cascades_delete Task_output_files_cascade"
  by (simp_all add: cascades_delete_def Task_input_files_cascade_def
      Task_output_files_cascade_def default_cascade_def)

lemma detach_keeps_rows:
  "map file_id (detach_input_files deleted rows) = map file_id rows"
  "map file_id (detach_output_files deleted rows) = map file_id rows"
  by (simp_all add: detach_input_files_def detach_output_files_def Task_files_do_not_cascade
      comp_def if_distrib cong: if_cong)

lemma children_by_id:
  assumes "primary_keys_unique task_id rows"
  shows "filter (\<lambda>t. task_id t \<notin> set (map task_id (filter (\<lambda>t. task_workflow_id t = i) rows))) rows
       = filter (\<lambda>t. task_workflow_id t \<noteq> i) rows"
proof (rule filter_cong [OF refl])
  fix t assume t: "t \<in> set rows"
  have inj: "inj_on task_id (set rows)"
    using assms by (simp add: primary_keys_unique_def distinct_map)
  show "(task_id t \<notin> set (map task_id (filter (\<lambda>t. task_workflow_id t = i) rows)))
      = (task_workflow_id t \<noteq> i)"
    using t inj by (auto dest: inj_onD)
qed

text \<open>
  C3. Deleting a Workflow that is in the database succeeds and deletes exactly the Tasks
  whose \<^verbatim>\<open>workflow_id\<close> is its id: the tasks table afterwards is the table before without
  them. The files table afterwards has the same rows by id, in the same order: no File
  is deleted, whichever Task it referenced.
\<close>

theorem delete_workflow_cascade:
  assumes "w \<in> set (workflows db)" and "primary_keys_unique task_id (tasks db)"
  shows "fst (delete_workflow_from_db db (workflow_id w)) = Inr ()
       \<and> tasks (snd (delete_workflow_from_db db (workflow_id w)))
           = filter (\<lambda>t. task_workflow_id t \<noteq> workflow_id w) (tasks db)
       \<and> map file_id (files (snd (delete_workflow_from_db db (workflow_id w))))
           = map file_id (files db)"
proof -
  obtain w' where get: "Session_get workflow_id (workflows db) (workflow_id w) = Some w'"
    and id: "workflow_id w' = workflow_id w"
    using Session_get_existing [OF assms(1)] by blast
  have run: "delete_workflow_from_db db (workflow_id w) =
      (Inr (),
       db\<lparr> tasks := filter (\<lambda>t. task_id t \<notin> set (map task_id
                  (filter (\<lambda>t. task_workflow_id t = workflow_id w) (tasks db)))) (tasks db),
           files := detach_output_files
                  (map task_id (filter (\<lambda>t. task_workflow_id t = workflow_id w) (tasks db)))
                  (detach_input_files
                    (map task_id (filter (\<lambda>t. task_workflow_id t = workflow_id w) (tasks db)))
                    (files db)),
           workflows := filter (\<lambda>x. workflow_id x \<noteq> workflow_id w) (workflows db),
           file_workflow_association :=
             filter (\<lambda>fw. snd fw \<noteq> workflow_id w) (file_workflow_association db) \<rparr>)"
    by (simp add: delete_workflow_from_db_def get Let_def id Workflow_tasks_cascades)
  show ?thesis
    unfolding run children_by_id [OF assms(2)] by (simp add: detach_keeps_rows)
qed

theorem delete_workflow_cascade_witness:
  "example_workflow 10 \<in> set (workflows db_workflows)
   \<and> primary_keys_unique task_id (tasks db_workflows)
   \<and> fst (delete_workflow_from_db db_workflows 10) = Inr ()
   \<and> tasks (snd (delete_workflow_from_db db_workflows 10)) = [example_task 23 11]
   \<and> map file_id (files (snd (delete_workflow_from_db db_workflows 10))) = [1, 2, 3]"
proof -
  have row: "example_workflow 10 \<in> set (workflows db_workflows)"
    by (simp add: db_workflows_def)
  have keys: "primary_keys_unique task_id (tasks db_workflows)"
    by (simp add: primary_keys_unique_def db_workflows_def example_task_def)
  have id: "workflow_id (example_workflow 10) = 10"
    by (simp add: example_workflow_def)
  have before: "tasks db_workflows = [example_task 21 10, example_task 22 10, example_task 23 11]"
    "map file_id (files db_workflows) = [1, 2, 3]"
    by (simp_all add: db_workflows_def stored_def)
  have wf: "task_workflow_id (example_task i v) = v" for i v
    by (simp add: example_task_def)
  show ?thesis
    using row keys delete_workflow_cascade [OF row keys]
    unfolding id before by (simp add: wf)
qed

section \<open>Properties of the status endpoint\<close>

lemma active_services_of_dicts:
  assumes "\<forall>s \<in> set services. \<exists>d. s = PDict d"
  shows "\<exists>active. active_services services = Inr active"
  using assms
proof (induction services)
  case Nil
  then show ?case by simp
next
  case (Cons s services)
  then obtain d where "s = PDict d" by auto
  moreover obtain active where "active_services services = Inr active"
    using Cons by auto
  ultimately show ?case by simp
qed

lemma get_system_config_well_formed:
  assumes "map_of config ''llms'' = Some (PDict llms)"
    and "\<forall>s \<in> set (map snd llms). \<exists>d. s = PDict d"
  shows "\<exists>active. get_system_config config cloud =
           Inr [(''active_llms'', PList active),
                (''data_types'', PList [PStr ''text/csv'', PStr ''text/json'']),
                (''active_cloud'', cloud)]"
proof -
  obtain active where "active_services (map snd llms) = Inr active"
    using active_services_of_dicts [OF assms(2)] by blast
  then show ?thesis
    using assms(1) by (simp add: get_system_config_def dict_get_def)
qed

text \<open>
  C9. The code diverges from the claim. On a configuration without the key \<^verbatim>\<open>llms\<close> the
  default of \<^verbatim>\<open>config.get("llms", [])\<close> is a list, \<^verbatim>\<open>llms.values()\<close> raises
  \<open>AttributeError\<close>, and the request is answered 500, not 200 with the object.
\<close>

theorem get_system_config_missing_llms:
  "get_system_config [] active_cloud = Inl (AttributeError ''list'' ''values'')
   \<and> http_status (get_system_config [] active_cloud) = 500
   \<and> get_system_config [(''cloud'', PDict [])] active_cloud
       = Inl (AttributeError ''list'' ''values'')"
  by (simp add: get_system_config_def dict_get_def http_status_def)

end
